theory Spec2Isabelle
  imports Main "HOL-Library.AList" "HOL-Library.Sublist" "HOL-Library.Word"
begin

section \<open>Values, dictionaries and exceptions\<close>

text \<open>
  The workflow filter of \<^verbatim>\<open>workflow-filter.py\<close> passes a data record (a Python dict with
  string keys) from node to node. The values it stores are JSON values and \<^verbatim>\<open>None\<close>;
  a float is its 64 bits.
  A dict is an association list: \<^verbatim>\<open>d[k] = v\<close> replaces the value in place when the key is
  present and appends the pair otherwise, which is \<^const>\<open>AList.update\<close>; \<^verbatim>\<open>d.get(k)\<close>
  is \<^const>\<open>map_of\<close>; \<^verbatim>\<open>d.copy()\<close> is the list itself, since a list is a value.
\<close>

datatype pyval =
    PNone
  | PBool bool
  | PInt int
  | PFloat "64 word"
  | PStr string
  | PList "pyval list"
  | PDict "(string \<times> pyval) list"

type_synonym pydict = "(string \<times> pyval) list"

text \<open>
  The instances of \<^verbatim>\<open>Exception\<close> that the code can meet. The two that the filter's own
  statements raise carry what their message is made of: the type name of the object and
  the attribute that it lacks, or the type name of the object that is not iterable or not
  hashable. Any other exception comes out of the library, with its message.
\<close>

datatype type_error = NotIterable string | Unhashable string

datatype pyexn =
    AttributeError string string
  | TypeError type_error
  | OtherException string

text \<open>\<^verbatim>\<open>type(v).__name__\<close>.\<close>

fun type_name :: "pyval \<Rightarrow> string" where
  "type_name PNone = ''NoneType''"
| "type_name (PBool b) = ''bool''"
| "type_name (PInt i) = ''int''"
| "type_name (PFloat w) = ''float''"
| "type_name (PStr s) = ''str''"
| "type_name (PList xs) = ''list''"
| "type_name (PDict d) = ''dict''"

text \<open>\<^verbatim>\<open>d.get(k, default)\<close> and \<^verbatim>\<open>d.get(k)\<close>.\<close>

definition dict_get_default :: "pydict \<Rightarrow> string \<Rightarrow> pyval \<Rightarrow> pyval" where
  "dict_get_default d k dflt = (case map_of d k of None \<Rightarrow> dflt | Some v \<Rightarrow> v)"

definition dict_get :: "pydict \<Rightarrow> string \<Rightarrow> pyval" where
  "dict_get d k = dict_get_default d k PNone"

text \<open>Truth value testing, as \<^verbatim>\<open>if x\<close>, \<^verbatim>\<open>not x\<close> and \<^verbatim>\<open>bool(x)\<close> do it. A float is
  falsy when it is \<^verbatim>\<open>0.0\<close> or \<^verbatim>\<open>-0.0\<close>: all its bits but the sign are zero.\<close>

fun truthy :: "pyval \<Rightarrow> bool" where
  "truthy PNone = False"
| "truthy (PBool b) = b"
| "truthy (PInt i) = (i \<noteq> 0)"
| "truthy (PFloat w) = (take_bit 63 w \<noteq> 0)"
| "truthy (PStr s) = (s \<noteq> [])"
| "truthy (PList xs) = (xs \<noteq> [])"
| "truthy (PDict d) = (d \<noteq> [])"

text \<open>
  The functions of the Python library that the filter calls are parameters of the model:
  every theorem holds whatever they compute. \<open>'f\<close> is the type of floats.
  \<^item> \<open>py_str\<close> is the builtin \<^verbatim>\<open>str\<close> (it does not raise on the values above);
  \<^item> \<open>py_lower\<close> is \<^verbatim>\<open>str.lower\<close>;
  \<^item> \<open>py_float\<close> is the builtin \<^verbatim>\<open>float\<close>, which raises on a value it cannot convert;
  \<^item> \<open>float_gt\<close> and \<open>float_lt\<close> are \<^verbatim>\<open>>\<close> and \<^verbatim>\<open><\<close> on floats;
  \<^item> \<open>re_search_ic p s\<close> is \<^verbatim>\<open>bool(re.search(p, s, re.IGNORECASE))\<close>, which raises on
    a pattern that does not compile;
  \<^item> \<open>exn_str\<close> is \<^verbatim>\<open>str\<close> of an exception.
\<close>

record 'f pylib =
  py_str :: "pyval \<Rightarrow> string"
  py_lower :: "string \<Rightarrow> string"
  py_float :: "pyval \<Rightarrow> pyexn + 'f"
  float_gt :: "'f \<Rightarrow> 'f \<Rightarrow> bool"
  float_lt :: "'f \<Rightarrow> 'f \<Rightarrow> bool"
  re_search_ic :: "pyval \<Rightarrow> string \<Rightarrow> pyexn + bool"
  exn_str :: "pyexn \<Rightarrow> string"

section \<open>Nodes and connections\<close>

text \<open>
  A connection is the dict \<^verbatim>\<open>{'target': ..., 'condition': ...}\<close> that \<^verbatim>\<open>add_connection\<close>
  appends; the target is a node id (\<^verbatim>\<open>target_node: str\<close>), the condition is \<^verbatim>\<open>None\<close> or
  the label found in the configuration.
\<close>

record connection =
  target :: string
  condition :: pyval

text \<open>
  The three subclasses of \<^verbatim>\<open>WorkflowNode\<close>. Each constructor fixes \<^verbatim>\<open>node_type\<close>, so
  \<^verbatim>\<open>node_type\<close> is a function of the class.
\<close>

datatype node_class = TriggerNode | FilterNode | ActionNode

record node =
  node_id :: string
  node_class :: node_class
  config :: pydict
  connections :: "connection list"

fun node_type_of :: "node_class \<Rightarrow> string" where
  "node_type_of TriggerNode = ''trigger''"
| "node_type_of FilterNode = ''filter''"
| "node_type_of ActionNode = ''action''"

definition node_type :: "node \<Rightarrow> string" where
  "node_type n = node_type_of (node_class n)"

definition add_connection :: "node \<Rightarrow> string \<Rightarrow> pyval \<Rightarrow> node" where
  "add_connection n target_node cond =
     n\<lparr>connections := connections n @ [\<lparr>target = target_node, condition = cond\<rparr>]\<rparr>"

section \<open>FilterNode\<close>

text \<open>\<^verbatim>\<open>value.lower()\<close> on a configured value: only a string has the method.\<close>

fun value_lower :: "'f pylib \<Rightarrow> pyval \<Rightarrow> pyexn + string" where
  "value_lower L (PStr s) = Inr (py_lower L s)"
| "value_lower L v = Inl (AttributeError (type_name v) ''lower'')"

text \<open>
  The body of the \<^verbatim>\<open>try\<close> block of \<^verbatim>\<open>_evaluate_condition\<close>. \<open>field_value\<close> is a string
  (the result of \<^verbatim>\<open>str\<close>), \<open>operator\<close> and \<open>value\<close> are what the condition holds.
  The substring test \<^verbatim>\<open>a in b\<close> is \<^const>\<open>sublist\<close>, \<^verbatim>\<open>startswith\<close> is \<^const>\<open>prefix\<close>,
  \<^verbatim>\<open>endswith\<close> is \<^const>\<open>suffix\<close>.
\<close>

definition evaluate_condition_try :: "'f pylib \<Rightarrow> string \<Rightarrow> pyval \<Rightarrow> pyval \<Rightarrow> pyexn + bool" where
  "evaluate_condition_try L field_value operator val =
    (if operator = PStr ''equals'' then
       (case value_lower L val of Inl e \<Rightarrow> Inl e
        | Inr v \<Rightarrow> Inr (py_lower L field_value = v))
     else if operator = PStr ''contains'' then
       (case value_lower L val of Inl e \<Rightarrow> Inl e
        | Inr v \<Rightarrow> Inr (sublist v (py_lower L field_value)))
     else if operator = PStr ''starts_with'' then
       (case value_lower L val of Inl e \<Rightarrow> Inl e
        | Inr v \<Rightarrow> Inr (prefix v (py_lower L field_value)))
     else if operator = PStr ''ends_with'' then
       (case value_lower L val of Inl e \<Rightarrow> Inl e
        | Inr v \<Rightarrow> Inr (suffix v (py_lower L field_value)))
     else if operator = PStr ''regex'' then
       re_search_ic L val field_value
     else if operator = PStr ''not_equals'' then
       (case value_lower L val of Inl e \<Rightarrow> Inl e
        | Inr v \<Rightarrow> Inr (py_lower L field_value \<noteq> v))
     else if operator = PStr ''not_contains'' then
       (case value_lower L val of Inl e \<Rightarrow> Inl e
        | Inr v \<Rightarrow> Inr (\<not> sublist v (py_lower L field_value)))
     else if operator = PStr ''greater_than'' then
       (case py_float L (PStr field_value) of Inl e \<Rightarrow> Inl e
        | Inr a \<Rightarrow> (case py_float L val of Inl e \<Rightarrow> Inl e
           | Inr b \<Rightarrow> Inr (float_gt L a b)))
     else if operator = PStr ''less_than'' then
       (case py_float L (PStr field_value) of Inl e \<Rightarrow> Inl e
        | Inr a \<Rightarrow> (case py_float L val of Inl e \<Rightarrow> Inl e
           | Inr b \<Rightarrow> Inr (float_lt L a b)))
     else Inr False)"

text \<open>
  \<^verbatim>\<open>try: body except Exception as e: handler\<close>. The result is what the statement gives
  the code around it: \<open>Inr\<close> a value, \<open>Inl\<close> an exception that leaves it. The handler
  runs on every exception of the body and may raise itself.
\<close>

definition try_except :: "pyexn + 'a \<Rightarrow> (pyexn \<Rightarrow> pyexn + 'a) \<Rightarrow> pyexn + 'a" where
  "try_except body handler = (case body of Inl e \<Rightarrow> handler e | Inr v \<Rightarrow> Inr v)"

text \<open>\<^verbatim>\<open>_evaluate_condition\<close>: the handler logs the error and returns \<^verbatim>\<open>False\<close>.\<close>

definition evaluate_condition :: "'f pylib \<Rightarrow> string \<Rightarrow> pyval \<Rightarrow> pyval \<Rightarrow> pyexn + bool" where
  "evaluate_condition L field_value operator val =
     try_except (evaluate_condition_try L field_value operator val) (\<lambda>e. Inr False)"

text \<open>
  \<^verbatim>\<open>_get_field_value\<close>. \<^verbatim>\<open>field_map.get(field, field)\<close> hashes \<open>field\<close>, which raises
  \<^verbatim>\<open>TypeError\<close> on a list or a dict. The keys of the record are strings, so a field that
  is not a string finds nothing and the default \<^verbatim>\<open>''\<close> is used.
\<close>

definition field_map :: "(string \<times> string) list" where
  "field_map =
    [(''sender'', ''from''), (''recipient'', ''to''), (''subject'', ''subject''),
     (''body'', ''body''), (''size'', ''size'')]"

fun get_field_value :: "'f pylib \<Rightarrow> pydict \<Rightarrow> pyval \<Rightarrow> pyexn + string" where
  "get_field_value L data (PList xs) = Inl (TypeError (Unhashable ''list''))"
| "get_field_value L data (PDict d) = Inl (TypeError (Unhashable ''dict''))"
| "get_field_value L data (PStr field) =
     (let actual_field = (case map_of field_map field of None \<Rightarrow> field | Some a \<Rightarrow> a)
      in Inr (py_str L (dict_get_default data actual_field (PStr ''''))))"
| "get_field_value L data field = Inr (py_str L (PStr ''''))"

text \<open>\<^verbatim>\<open>condition.get(k)\<close> on an element of the condition list: only a dict has \<^verbatim>\<open>get\<close>.\<close>

fun condition_get :: "pyval \<Rightarrow> string \<Rightarrow> pyexn + pyval" where
  "condition_get (PDict d) k = Inr (dict_get d k)"
| "condition_get v k = Inl (AttributeError (type_name v) ''get'')"

text \<open>Iterating over \<^verbatim>\<open>self.conditions\<close>, whatever the configuration put there.\<close>

fun py_iter :: "pyval \<Rightarrow> pyexn + pyval list" where
  "py_iter (PList xs) = Inr xs"
| "py_iter (PDict d) = Inr (map (\<lambda>kv. PStr (fst kv)) d)"
| "py_iter (PStr s) = Inr (map (\<lambda>c. PStr [c]) s)"
| "py_iter v = Inl (TypeError (NotIterable (type_name v)))"

text \<open>
  One round of the loop of \<^verbatim>\<open>FilterNode.execute\<close>: the field, the operator, the value
  and the match result of a condition, and the dict appended to \<^verbatim>\<open>filter_results\<close>.
\<close>

definition condition_row :: "'f pylib \<Rightarrow> pydict \<Rightarrow> pyval \<Rightarrow> pyexn + (pyval \<times> pyval \<times> pyval \<times> bool)" where
  "condition_row L data cond =
    (case condition_get cond ''field'' of Inl e \<Rightarrow> Inl e | Inr field \<Rightarrow>
    (case condition_get cond ''operator'' of Inl e \<Rightarrow> Inl e | Inr operator \<Rightarrow>
    (case condition_get cond ''value'' of Inl e \<Rightarrow> Inl e | Inr val \<Rightarrow>
    (case get_field_value L data field of Inl e \<Rightarrow> Inl e | Inr field_value \<Rightarrow>
    (case evaluate_condition L field_value operator val of Inl e \<Rightarrow> Inl e | Inr match_result \<Rightarrow>
       Inr (field, operator, val, match_result))))))"

fun row_dict :: "pyval \<times> pyval \<times> pyval \<times> bool \<Rightarrow> pyval" where
  "row_dict (field, operator, val, match_result) =
     PDict [(''field'', field), (''operator'', operator), (''value'', val),
            (''result'', PBool match_result)]"

fun match_result :: "pyval \<times> pyval \<times> pyval \<times> bool \<Rightarrow> bool" where
  "match_result (field, operator, val, m) = m"

definition filter_entry :: "'f pylib \<Rightarrow> pydict \<Rightarrow> pyval \<Rightarrow> pyexn + pyval" where
  "filter_entry L data cond =
    (case condition_row L data cond of Inl e \<Rightarrow> Inl e | Inr row \<Rightarrow> Inr (row_dict row))"

text \<open>The loop: the entries in the order of the conditions; the first exception ends it.\<close>

fun filter_loop :: "'f pylib \<Rightarrow> pydict \<Rightarrow> pyval list \<Rightarrow> pyval list \<Rightarrow> pyexn + pyval list" where
  "filter_loop L data [] filter_results = Inr filter_results"
| "filter_loop L data (cond # conds) filter_results =
     (case filter_entry L data cond of
        Inl e \<Rightarrow> Inl e
      | Inr entry \<Rightarrow> filter_loop L data conds (filter_results @ [entry]))"

text \<open>\<^verbatim>\<open>r['result']\<close> for an entry of \<^verbatim>\<open>filter_results\<close>, as a truth value.\<close>

fun entry_result :: "pyval \<Rightarrow> bool" where
  "entry_result (PDict d) = truthy (dict_get d ''result'')"
| "entry_result v = False"

text \<open>
  \<^verbatim>\<open>FilterNode.execute\<close>. \<^verbatim>\<open>self.conditions\<close> is \<^verbatim>\<open>config.get('conditions', [])\<close>, set by
  the constructor from the same configuration.
\<close>

definition FilterNode_execute :: "'f pylib \<Rightarrow> pydict \<Rightarrow> pydict \<Rightarrow> pyexn + pydict" where
  "FilterNode_execute L cfg data =
    (let result = AList.update ''filter_results'' (PList []) data in
     (case py_iter (dict_get_default cfg ''conditions'' (PList [])) of Inl e \<Rightarrow> Inl e
      | Inr conds \<Rightarrow>
     (case filter_loop L data conds [] of Inl e \<Rightarrow> Inl e
      | Inr filter_results \<Rightarrow>
       (let result = AList.update ''filter_results'' (PList filter_results) result;
            logic = dict_get_default cfg ''logic'' (PStr ''AND'')
        in if logic = PStr ''AND''
           then Inr (AList.update ''filter_passed''
                       (PBool (list_all entry_result filter_results)) result)
           else Inr (AList.update ''filter_passed''
                       (PBool (list_ex entry_result filter_results)) result)))))"

section \<open>ActionNode\<close>

text \<open>\<^verbatim>\<open>ActionNode.execute\<close>; \<^verbatim>\<open>self.action_type\<close> is \<^verbatim>\<open>config.get('action_type')\<close>.\<close>

definition ActionNode_execute :: "pydict \<Rightarrow> pydict \<Rightarrow> pydict" where
  "ActionNode_execute cfg data =
    (let result = data; action_type = dict_get cfg ''action_type'' in
     if action_type = PStr ''reject'' then
       AList.update ''reject_reason''
         (dict_get_default cfg ''reason'' (PStr ''Message rejected by filter''))
         (AList.update ''action'' (PStr ''reject'') result)
     else if action_type = PStr ''quarantine'' then
       AList.update ''quarantine_folder''
         (dict_get_default cfg ''folder'' (PStr ''/var/mail/quarantine''))
         (AList.update ''action'' (PStr ''quarantine'') result)
     else if action_type = PStr ''forward'' then
       AList.update ''forward_to'' (dict_get cfg ''forward_to'')
         (AList.update ''action'' (PStr ''forward'') result)
     else if action_type = PStr ''modify_headers'' then
       AList.update ''header_modifications'' (dict_get_default cfg ''headers'' (PDict []))
         (AList.update ''action'' (PStr ''modify_headers'') result)
     else if action_type = PStr ''accept'' then
       AList.update ''action'' (PStr ''accept'') result
     else if action_type = PStr ''tag'' then
       AList.update ''tags'' (dict_get_default cfg ''tags'' (PList []))
         (AList.update ''action'' (PStr ''tag'') result)
     else result)"

text \<open>\<^verbatim>\<open>node.execute(data)\<close>: dispatch on the class. \<^verbatim>\<open>TriggerNode.execute\<close> logs and returns
  its argument.\<close>

definition node_execute :: "'f pylib \<Rightarrow> node \<Rightarrow> pydict \<Rightarrow> pyexn + pydict" where
  "node_execute L n data =
    (case node_class n of
       TriggerNode \<Rightarrow> Inr data
     | FilterNode \<Rightarrow> FilterNode_execute L (config n) data
     | ActionNode \<Rightarrow> Inr (ActionNode_execute (config n) data))"

section \<open>WorkflowEngine\<close>

text \<open>\<^verbatim>\<open>_should_follow_connection\<close>.\<close>

definition should_follow_connection :: "pydict \<Rightarrow> pyval \<Rightarrow> bool" where
  "should_follow_connection data cond =
    (if \<not> truthy cond then True
     else if cond = PStr ''true'' \<and> truthy (dict_get data ''filter_passed'') then True
     else if cond = PStr ''false'' \<and> \<not> truthy (dict_get data ''filter_passed'') then True
     else False)"

text \<open>
  The engine: \<^verbatim>\<open>self.nodes\<close>, a dict from node id to node in insertion order.
  (\<^verbatim>\<open>self.connections\<close> is never used.)
\<close>

record engine =
  nodes :: "(string \<times> node) list"

definition node_ids :: "engine \<Rightarrow> string set" where
  "node_ids E = node_id ` snd ` set (nodes E)"

lemma finite_node_ids: "finite (node_ids E)"
  by (simp add: node_ids_def)

lemma map_of_node_ids: "map_of (nodes E) k = Some n \<Longrightarrow> node_id n \<in> node_ids E"
  by (force simp: node_ids_def dest: map_of_SomeD)

lemma card_unvisited_less:
  assumes "i \<notin> V"
  shows "card (node_ids E - insert i V) < card (insert i (node_ids E) - V)"
proof (rule psubset_card_mono)
  show "finite (insert i (node_ids E) - V)"
    by (simp add: finite_node_ids)
  show "node_ids E - insert i V \<subset> insert i (node_ids E) - V"
    using assms by auto
qed

text \<open>
  \<^verbatim>\<open>_execute_node\<close>, with the \<^verbatim>\<open>for\<close> loop over \<^verbatim>\<open>node.connections\<close> as
  \<open>follow_connections\<close>. The set \<^verbatim>\<open>visited\<close> is an object that the call mutates
  (\<^verbatim>\<open>visited.add\<close>), so \<open>execute_node\<close> returns the set as the call leaves it, next to
  the record. The loop passes \<^verbatim>\<open>visited.copy()\<close> to the call for a target: the set that
  this call returns is the copy's, and the loop drops it. The third component is the list
  of the ids of the nodes whose \<^verbatim>\<open>execute\<close> was called, in the order of the calls. A
  target id that is not a key of \<^verbatim>\<open>self.nodes\<close> is logged and skipped.
\<close>

function execute_node ::
    "'f pylib \<Rightarrow> engine \<Rightarrow> node \<Rightarrow> pydict \<Rightarrow> string set
       \<Rightarrow> pyexn + (pydict \<times> string set \<times> string list)"
  and follow_connections ::
    "'f pylib \<Rightarrow> engine \<Rightarrow> connection list \<Rightarrow> pydict \<Rightarrow> string set
       \<Rightarrow> pyexn + (pydict \<times> string list)"
where
  "execute_node L E n data visited =
    (if node_id n \<in> visited then Inr (data, visited, [])
     else
       (case node_execute L n data of
          Inl e \<Rightarrow> Inl e
        | Inr result \<Rightarrow>
           (case follow_connections L E (connections n) result (insert (node_id n) visited) of
              Inl e \<Rightarrow> Inl e
            | Inr (result', trace) \<Rightarrow>
                Inr (result', insert (node_id n) visited, node_id n # trace))))"
| "follow_connections L E [] result visited = Inr (result, [])"
| "follow_connections L E (c # cs) result visited =
    (if should_follow_connection result (condition c) then
       (case map_of (nodes E) (target c) of
          Some target_node \<Rightarrow>
            (case execute_node L E target_node result visited of
               Inl e \<Rightarrow> Inl e
             | Inr (result', visited_copy, trace) \<Rightarrow>
                 (case follow_connections L E cs result' visited of
                    Inl e \<Rightarrow> Inl e
                  | Inr (result'', trace') \<Rightarrow> Inr (result'', trace @ trace')))
        | None \<Rightarrow> follow_connections L E cs result visited)
     else follow_connections L E cs result visited)"
  by pat_completeness auto

text \<open>
  Every call adds a node id that was not in \<^verbatim>\<open>visited\<close>, and only the ids of the nodes of
  the engine (and of the first node) can be added: the number of ids not yet visited
  decreases from a node to its loop, and the loop shortens its list. So every call of
  \<open>execute_node\<close> and of \<open>follow_connections\<close> is in the domain of the recursion,
  whatever the graph.
\<close>

lemma traversal_total: "All execute_node_follow_connections_dom"
proof (relation "measures
    [\<lambda>x. case x of
        Inl (L, E, n, d, V) \<Rightarrow> card (insert (node_id n) (node_ids E) - V)
      | Inr (L, E, cs, d, V) \<Rightarrow> card (node_ids E - V),
     \<lambda>x. case x of
        Inl (L, E, n, d, V) \<Rightarrow> 0
      | Inr (L, E, cs, d, V) \<Rightarrow> Suc (length cs)]", goal_cases)
  case 1
  show ?case by simp
next
  case (2 L E n data visited b)
  then show ?case by (simp add: card_unvisited_less)
next
  case (4 L E c cs result visited x2)
  then have "insert (node_id x2) (node_ids E) = node_ids E"
    by (auto dest: map_of_node_ids)
  then show ?case by simp
qed simp_all

termination execute_node
  by (rule traversal_total)

declare execute_node.simps [simp del]

text \<open>
  \<^verbatim>\<open>WorkflowEngine.execute\<close>: the first node of type \<^verbatim>\<open>'trigger'\<close> among
  \<^verbatim>\<open>self.nodes.values()\<close>; without one, the record \<^verbatim>\<open>{'action': 'accept', 'error': ...}\<close>.
  The result is the record and the ids of the executed nodes.
\<close>

definition WorkflowEngine_execute ::
    "'f pylib \<Rightarrow> engine \<Rightarrow> pydict \<Rightarrow> pyexn + (pydict \<times> string list)" where
  "WorkflowEngine_execute L E email_data =
    (case find (\<lambda>n. node_type n = ''trigger'') (map snd (nodes E)) of
       None \<Rightarrow> Inr ([(''action'', PStr ''accept''), (''error'', PStr ''No trigger node'')], [])
     | Some trigger_node \<Rightarrow>
         (let current_data = email_data; visited_nodes = {} in
          case execute_node L E trigger_node current_data visited_nodes of
            Inl e \<Rightarrow> Inl e
          | Inr (result, visited, trace) \<Rightarrow> Inr (result, trace)))"

section \<open>Building the workflow\<close>

text \<open>
  The configuration after \<^verbatim>\<open>json.load\<close>. A node descriptor is a dict; \<^verbatim>\<open>_build_workflow\<close>
  reads its \<^verbatim>\<open>'id'\<close> and \<^verbatim>\<open>'type'\<close> (strings: \<^verbatim>\<open>node_id: str\<close>, \<^verbatim>\<open>node_type: str\<close>)
  and hands the whole descriptor to the node as its \<^verbatim>\<open>config\<close>. A connection descriptor
  has a \<^verbatim>\<open>'source'\<close>, a \<^verbatim>\<open>'target'\<close> and \<^verbatim>\<open>conn.get('condition')\<close>, which is \<^verbatim>\<open>None\<close>
  when the key is absent.
\<close>

record node_config =
  nc_id :: string
  nc_type :: string
  nc_descriptor :: pydict

record connection_config =
  cc_source :: string
  cc_target :: string
  cc_condition :: pyval

record workflow_config =
  wc_nodes :: "node_config list"
  wc_connections :: "connection_config list"

text \<open>The constructors: \<^verbatim>\<open>self.connections = []\<close>.\<close>

definition new_node :: "node_class \<Rightarrow> string \<Rightarrow> pydict \<Rightarrow> node" where
  "new_node cls i cfg = \<lparr>node_id = i, node_class = cls, config = cfg, connections = []\<rparr>"

text \<open>The first loop of \<^verbatim>\<open>_build_workflow\<close>: a node of an unknown type is skipped.\<close>

fun build_nodes :: "node_config list \<Rightarrow> (string \<times> node) list \<Rightarrow> (string \<times> node) list" where
  "build_nodes [] ns = ns"
| "build_nodes (nc # ncs) ns =
    (if nc_type nc = ''trigger'' then
       build_nodes ncs (AList.update (nc_id nc) (new_node TriggerNode (nc_id nc) (nc_descriptor nc)) ns)
     else if nc_type nc = ''filter'' then
       build_nodes ncs (AList.update (nc_id nc) (new_node FilterNode (nc_id nc) (nc_descriptor nc)) ns)
     else if nc_type nc = ''action'' then
       build_nodes ncs (AList.update (nc_id nc) (new_node ActionNode (nc_id nc) (nc_descriptor nc)) ns)
     else build_nodes ncs ns)"

text \<open>The second loop: a connection whose source is not a node is dropped.\<close>

fun build_connections :: "connection_config list \<Rightarrow> (string \<times> node) list \<Rightarrow> (string \<times> node) list" where
  "build_connections [] ns = ns"
| "build_connections (conn # conns) ns =
    (case map_of ns (cc_source conn) of
       Some source_node \<Rightarrow>
         build_connections conns
           (AList.update (cc_source conn)
              (add_connection source_node (cc_target conn) (cc_condition conn)) ns)
     | None \<Rightarrow> build_connections conns ns)"

definition build_workflow :: "workflow_config \<Rightarrow> engine" where
  "build_workflow cfg = \<lparr>nodes = build_connections (wc_connections cfg) (build_nodes (wc_nodes cfg) [])\<rparr>"

text \<open>The dict literal of \<^verbatim>\<open>_create_default_config\<close>.\<close>

definition default_config :: workflow_config where
  "default_config =
    \<lparr>wc_nodes =
       [\<lparr>nc_id = ''trigger1'', nc_type = ''trigger'',
          nc_descriptor =
            [(''id'', PStr ''trigger1''), (''type'', PStr ''trigger''),
             (''name'', PStr ''Email Received'')]\<rparr>,
        \<lparr>nc_id = ''filter1'', nc_type = ''filter'',
          nc_descriptor =
            [(''id'', PStr ''filter1''), (''type'', PStr ''filter''),
             (''name'', PStr ''Spam Filter''), (''logic'', PStr ''OR''),
             (''conditions'', PList
                [PDict [(''field'', PStr ''subject''), (''operator'', PStr ''contains''),
                        (''value'', PStr ''[SPAM]'')],
                 PDict [(''field'', PStr ''sender''), (''operator'', PStr ''contains''),
                        (''value'', PStr ''noreply@spam'')]])]\<rparr>,
        \<lparr>nc_id = ''action1'', nc_type = ''action'',
          nc_descriptor =
            [(''id'', PStr ''action1''), (''type'', PStr ''action''),
             (''name'', PStr ''Reject Spam''), (''action_type'', PStr ''reject''),
             (''reason'', PStr ''Message identified as spam'')]\<rparr>,
        \<lparr>nc_id = ''action2'', nc_type = ''action'',
          nc_descriptor =
            [(''id'', PStr ''action2''), (''type'', PStr ''action''),
             (''name'', PStr ''Accept Email''), (''action_type'', PStr ''accept'')]\<rparr>],
     wc_connections =
       [\<lparr>cc_source = ''trigger1'', cc_target = ''filter1'', cc_condition = PNone\<rparr>,
        \<lparr>cc_source = ''filter1'', cc_target = ''action1'', cc_condition = PStr ''true''\<rparr>,
        \<lparr>cc_source = ''filter1'', cc_target = ''action2'', cc_condition = PStr ''false''\<rparr>]\<rparr>"

section \<open>EmailProcessor\<close>










section \<open>A library for the examples\<close>

text \<open>
  The theorems below hold for every library. The examples are evaluated with this one,
  which is what CPython computes on the inputs of the examples and no more than that:
  \<open>ascii_lower\<close> is \<^verbatim>\<open>str.lower\<close> on ASCII strings, \<open>example_float\<close> converts a
  string of decimal digits and raises \<^verbatim>\<open>ValueError\<close> on the other strings it is given
  here, \<open>example_search\<close> searches a pattern of letters, digits and spaces and raises
  \<^verbatim>\<open>re.error\<close> on the pattern \<^verbatim>\<open>(\<close>, \<open>example_exn_str\<close> is the message of the exception.
\<close>

definition ascii_lower_char :: "char \<Rightarrow> char" where
  "ascii_lower_char c =
    (case map_of (zip ''ABCDEFGHIJKLMNOPQRSTUVWXYZ'' ''abcdefghijklmnopqrstuvwxyz'') c of
       Some l \<Rightarrow> l
     | None \<Rightarrow> c)"

definition ascii_lower :: "string \<Rightarrow> string" where
  "ascii_lower s = map ascii_lower_char s"

definition is_ascii :: "string \<Rightarrow> bool" where
  "is_ascii s = list_all (\<lambda>c. (of_char c :: nat) < 128) s"

definition is_digit :: "char \<Rightarrow> bool" where
  "is_digit c = (let k = (of_char c :: nat) in 48 \<le> k \<and> k \<le> 57)"

definition digits_value :: "string \<Rightarrow> int" where
  "digits_value s = foldl (\<lambda>a c. 10 * a + (int (of_char c) - 48)) 0 s"

definition is_word_char :: "char \<Rightarrow> bool" where
  "is_word_char c =
    (let k = (of_char c :: nat)
     in (48 \<le> k \<and> k \<le> 57) \<or> (65 \<le> k \<and> k \<le> 90) \<or> (97 \<le> k \<and> k \<le> 122) \<or> k = 32)"

text \<open>A name between single quotes, as the messages of CPython show it.\<close>

definition quoted :: "string \<Rightarrow> string" where
  "quoted s = CHR 0x27 # s @ [CHR 0x27]"

fun example_float :: "pyval \<Rightarrow> pyexn + int" where
  "example_float (PStr s) =
     (if s \<noteq> [] \<and> list_all is_digit s then Inr (digits_value s)
      else Inl (OtherException (''could not convert string to float: '' @ quoted s)))"
| "example_float (PInt i) = Inr i"
| "example_float (PBool b) = Inr (if b then 1 else 0)"
| "example_float v =
     Inl (OtherException
       (''float() argument must be a string or a real number, not '' @ quoted (type_name v)))"

fun example_search :: "pyval \<Rightarrow> string \<Rightarrow> pyexn + bool" where
  "example_search (PStr p) s =
     (if list_all is_word_char p then Inr (sublist (ascii_lower p) (ascii_lower s))
      else Inl (OtherException ''missing ), unterminated subpattern at position 0''))"
| "example_search v s =
     Inl (OtherException ''first argument must be string or compiled pattern'')"

fun example_str :: "pyval \<Rightarrow> string" where
  "example_str (PStr s) = s"
| "example_str PNone = ''None''"
| "example_str (PBool b) = (if b then ''True'' else ''False'')"
| "example_str v = ''?''"

text \<open>\<^verbatim>\<open>str(e)\<close>: the message of the exception.\<close>

fun example_exn_str :: "pyexn \<Rightarrow> string" where
  "example_exn_str (AttributeError t a) =
     quoted t @ '' object has no attribute '' @ quoted a"
| "example_exn_str (TypeError (NotIterable t)) = quoted t @ '' object is not iterable''"
| "example_exn_str (TypeError (Unhashable t)) = ''unhashable type: '' @ quoted t"
| "example_exn_str (OtherException s) = s"

definition example_lib :: "int pylib" where
  "example_lib =
    \<lparr>py_str = example_str, py_lower = ascii_lower, py_float = example_float,
     float_gt = (\<lambda>a b. a > b), float_lt = (\<lambda>a b. a < b),
     re_search_ic = example_search, exn_str = example_exn_str\<rparr>"



text \<open>The records of the examples.\<close>

definition spam_record :: pydict where
  "spam_record =
    [(''from'', PStr ''''), (''to'', PStr ''''), (''subject'', PStr ''[SPAM] buy now''),
     (''date'', PStr ''''), (''message_id'', PStr ''''), (''body'', PStr '''')]"

definition hello_record :: pydict where
  "hello_record =
    [(''from'', PStr ''a@b.com''), (''to'', PStr ''''), (''subject'', PStr ''hello''),
     (''date'', PStr ''''), (''message_id'', PStr ''''), (''body'', PStr '''')]"

text \<open>The configurations of the examples: a filter node, a workflow without a trigger, a
  workflow with a cycle (\<open>a1\<close> to \<open>a2\<close> and back, and on to the trigger), and a
  diamond (\<open>t1\<close> to \<open>a1\<close> and \<open>a2\<close>, both to \<open>d1\<close>).\<close>

definition example_filter_config :: pydict where
  "example_filter_config =
    [(''id'', PStr ''f1''), (''type'', PStr ''filter''), (''logic'', PStr ''AND''),
     (''conditions'', PList
        [PDict [(''field'', PStr ''subject''), (''operator'', PStr ''contains''),
                (''value'', PStr ''HELLO'')],
         PDict [(''field'', PStr ''size''), (''operator'', PStr ''greater_than''),
                (''value'', PStr ''1000'')]])]"

definition action_descriptor :: "string \<Rightarrow> string \<Rightarrow> pydict" where
  "action_descriptor i a =
    [(''id'', PStr i), (''type'', PStr ''action''), (''action_type'', PStr a)]"

definition no_trigger_config :: workflow_config where
  "no_trigger_config =
    \<lparr>wc_nodes =
       [\<lparr>nc_id = ''f1'', nc_type = ''filter'', nc_descriptor = example_filter_config\<rparr>,
        \<lparr>nc_id = ''a1'', nc_type = ''action'',
          nc_descriptor = action_descriptor ''a1'' ''reject''\<rparr>],
     wc_connections =
       [\<lparr>cc_source = ''f1'', cc_target = ''a1'', cc_condition = PStr ''true''\<rparr>]\<rparr>"

definition cyclic_config :: workflow_config where
  "cyclic_config =
    \<lparr>wc_nodes =
       [\<lparr>nc_id = ''t1'', nc_type = ''trigger'',
          nc_descriptor = [(''id'', PStr ''t1''), (''type'', PStr ''trigger'')]\<rparr>,
        \<lparr>nc_id = ''a1'', nc_type = ''action'',
          nc_descriptor = action_descriptor ''a1'' ''quarantine''\<rparr>,
        \<lparr>nc_id = ''a2'', nc_type = ''action'',
          nc_descriptor = action_descriptor ''a2'' ''accept''\<rparr>],
     wc_connections =
       [\<lparr>cc_source = ''t1'', cc_target = ''a1'', cc_condition = PNone\<rparr>,
        \<lparr>cc_source = ''a1'', cc_target = ''a2'', cc_condition = PNone\<rparr>,
        \<lparr>cc_source = ''a2'', cc_target = ''a1'', cc_condition = PNone\<rparr>,
        \<lparr>cc_source = ''a2'', cc_target = ''t1'', cc_condition = PNone\<rparr>]\<rparr>"

definition diamond_config :: workflow_config where
  "diamond_config =
    \<lparr>wc_nodes =
       [\<lparr>nc_id = ''t1'', nc_type = ''trigger'',
          nc_descriptor = [(''id'', PStr ''t1''), (''type'', PStr ''trigger'')]\<rparr>,
        \<lparr>nc_id = ''a1'', nc_type = ''action'',
          nc_descriptor = action_descriptor ''a1'' ''quarantine''\<rparr>,
        \<lparr>nc_id = ''a2'', nc_type = ''action'',
          nc_descriptor = action_descriptor ''a2'' ''reject''\<rparr>,
        \<lparr>nc_id = ''d1'', nc_type = ''action'',
          nc_descriptor = action_descriptor ''d1'' ''accept''\<rparr>],
     wc_connections =
       [\<lparr>cc_source = ''t1'', cc_target = ''a1'', cc_condition = PNone\<rparr>,
        \<lparr>cc_source = ''t1'', cc_target = ''a2'', cc_condition = PNone\<rparr>,
        \<lparr>cc_source = ''a1'', cc_target = ''d1'', cc_condition = PNone\<rparr>,
        \<lparr>cc_source = ''a2'', cc_target = ''d1'', cc_condition = PNone\<rparr>]\<rparr>"



section \<open>Evaluation rules\<close>

lemmas example_lib_simps =
  example_lib_def ascii_lower_def ascii_lower_char_def is_digit_def is_word_char_def
  sublist_code(3)

lemmas filter_simps =
  FilterNode_execute_def filter_entry_def condition_row_def field_map_def
  evaluate_condition_def evaluate_condition_try_def try_except_def
  dict_get_def dict_get_default_def

lemmas build_simps =
  build_workflow_def new_node_def add_connection_def node_type_def action_descriptor_def

lemmas traversal_simps =
  WorkflowEngine_execute_def execute_node.simps node_execute_def ActionNode_execute_def
  should_follow_connection_def dict_get_def dict_get_default_def


section \<open>Lemmas on dicts\<close>

lemma dict_get_update:
  "dict_get (AList.update k v d) k' = (if k' = k then v else dict_get d k')"
  by (simp add: dict_get_def dict_get_default_def update_conv')

section \<open>Condition evaluation\<close>

lemma try_except_False_returns: "\<exists>b. try_except body (\<lambda>e. Inr False) = Inr b"
  by (cases body) (auto simp: try_except_def)

lemma try_except_False_fault: "body = Inl e \<Longrightarrow> try_except body (\<lambda>e. Inr False) = Inr False"
  by (simp add: try_except_def)

lemma evaluate_condition_try_unknown:
  assumes "operator \<notin> {PStr ''equals'', PStr ''contains'', PStr ''starts_with'', PStr ''ends_with'',
      PStr ''regex'', PStr ''not_equals'', PStr ''not_contains'', PStr ''greater_than'',
      PStr ''less_than''}"
  shows "evaluate_condition_try L field_value operator val = Inr False"
  using assms by (simp add: evaluate_condition_try_def)

lemma evaluate_condition_try_float_fault:
  assumes "operator = PStr ''greater_than'' \<or> operator = PStr ''less_than''"
    and "py_float L (PStr field_value) = Inl e \<or> py_float L val = Inl e"
  shows "\<exists>e'. evaluate_condition_try L field_value operator val = Inl e'"
  using assms by (auto simp: evaluate_condition_try_def split: sum.splits)

lemma evaluate_condition_try_regex_fault:
  assumes "re_search_ic L val field_value = Inl e"
  shows "evaluate_condition_try L field_value (PStr ''regex'') val = Inl e"
  using assms by (simp add: evaluate_condition_try_def)

text \<open>
  C5. Condition evaluation never raises: for every field value, operator and comparison
  value it returns a boolean. An operator that is not one of the nine known ones gives
  \<^verbatim>\<open>False\<close>, and so does every fault of the evaluation: a value that \<^verbatim>\<open>float\<close> cannot
  convert under \<^verbatim>\<open>greater_than\<close> or \<^verbatim>\<open>less_than\<close>, a pattern that \<^verbatim>\<open>re.search\<close> refuses,
  or any other exception of the \<^verbatim>\<open>try\<close> block.
\<close>

theorem evaluate_condition_never_raises:
  "(\<exists>b. evaluate_condition L field_value operator val = Inr b)
 \<and> (operator \<notin> {PStr ''equals'', PStr ''contains'', PStr ''starts_with'', PStr ''ends_with'',
      PStr ''regex'', PStr ''not_equals'', PStr ''not_contains'', PStr ''greater_than'',
      PStr ''less_than''} \<longrightarrow> evaluate_condition L field_value operator val = Inr False)
 \<and> (\<forall>e. evaluate_condition_try L field_value operator val = Inl e \<longrightarrow>
        evaluate_condition L field_value operator val = Inr False)
 \<and> (\<forall>e. (operator = PStr ''greater_than'' \<or> operator = PStr ''less_than'') \<and>
        (py_float L (PStr field_value) = Inl e \<or> py_float L val = Inl e) \<longrightarrow>
        evaluate_condition L field_value operator val = Inr False)
 \<and> (\<forall>e. operator = PStr ''regex'' \<and> re_search_ic L val field_value = Inl e \<longrightarrow>
        evaluate_condition L field_value operator val = Inr False)"
proof (intro conjI allI impI)
  show "\<exists>b. evaluate_condition L field_value operator val = Inr b"
    unfolding evaluate_condition_def by (rule try_except_False_returns)
next
  assume "operator \<notin> {PStr ''equals'', PStr ''contains'', PStr ''starts_with'', PStr ''ends_with'',
      PStr ''regex'', PStr ''not_equals'', PStr ''not_contains'', PStr ''greater_than'',
      PStr ''less_than''}"
  then have "evaluate_condition_try L field_value operator val = Inr False"
    by (rule evaluate_condition_try_unknown)
  then show "evaluate_condition L field_value operator val = Inr False"
    by (simp add: evaluate_condition_def try_except_def)
next
  fix e
  assume "evaluate_condition_try L field_value operator val = Inl e"
  then show "evaluate_condition L field_value operator val = Inr False"
    unfolding evaluate_condition_def by (rule try_except_False_fault)
next
  fix e
  assume "(operator = PStr ''greater_than'' \<or> operator = PStr ''less_than'') \<and>
        (py_float L (PStr field_value) = Inl e \<or> py_float L val = Inl e)"
  then obtain e' where "evaluate_condition_try L field_value operator val = Inl e'"
    using evaluate_condition_try_float_fault by blast
  then show "evaluate_condition L field_value operator val = Inr False"
    unfolding evaluate_condition_def by (rule try_except_False_fault)
next
  fix e
  assume "operator = PStr ''regex'' \<and> re_search_ic L val field_value = Inl e"
  then have "evaluate_condition_try L field_value operator val = Inl e"
    by (simp add: evaluate_condition_try_regex_fault)
  then show "evaluate_condition L field_value operator val = Inr False"
    unfolding evaluate_condition_def by (rule try_except_False_fault)
qed

theorem evaluate_condition_never_raises_witness:
  "evaluate_condition_try example_lib ''big'' (PStr ''greater_than'') (PStr ''1000'')
     = Inl (OtherException (''could not convert string to float: '' @ quoted ''big''))
 \<and> evaluate_condition example_lib ''big'' (PStr ''greater_than'') (PStr ''1000'') = Inr False
 \<and> evaluate_condition example_lib ''hello'' (PStr ''regex'') (PStr ''('') = Inr False
 \<and> evaluate_condition example_lib ''hello'' (PStr ''sounds_like'') (PStr ''hello'') = Inr False"
proof -
  have big: "evaluate_condition_try example_lib ''big'' (PStr ''greater_than'') (PStr ''1000'')
     = Inl (OtherException (''could not convert string to float: '' @ quoted ''big''))"
    by (simp add: evaluate_condition_try_def example_lib_def is_digit_def)
  have paren: "re_search_ic example_lib (PStr ''('') ''hello''
      = Inl (OtherException ''missing ), unterminated subpattern at position 0'')"
    by (simp add: example_lib_def is_word_char_def)
  from big paren
    evaluate_condition_never_raises [of example_lib "''big''" "PStr ''greater_than''" "PStr ''1000''"]
    evaluate_condition_never_raises [of example_lib "''hello''" "PStr ''regex''" "PStr ''(''"]
    evaluate_condition_never_raises [of example_lib "''hello''" "PStr ''sounds_like''" "PStr ''hello''"]
  show ?thesis by simp
qed

section \<open>Filter nodes\<close>

lemma entry_result_row_dict: "entry_result (row_dict row) = match_result row"
  by (cases row) (simp add: dict_get_def dict_get_default_def)

lemma filter_loop_rows:
  assumes "filter_loop L data conds acc = Inr frs"
  shows "\<exists>rows. map (condition_row L data) conds = map Inr rows \<and> frs = acc @ map row_dict rows"
  using assms
proof (induction conds arbitrary: acc)
  case Nil
  then show ?case by simp
next
  case (Cons c cs)
  from Cons.prems obtain row where row: "condition_row L data c = Inr row"
    and rest: "filter_loop L data cs (acc @ [row_dict row]) = Inr frs"
    by (auto simp: filter_entry_def split: sum.splits)
  from Cons.IH [OF rest] obtain rows where
    "map (condition_row L data) cs = map Inr rows" "frs = (acc @ [row_dict row]) @ map row_dict rows"
    by blast
  with row have "map (condition_row L data) (c # cs) = map Inr (row # rows)
      \<and> frs = acc @ map row_dict (row # rows)"
    by simp
  then show ?case by blast
qed

lemma filter_loop_returns:
  assumes "\<forall>c\<in>set conds. \<exists>row. condition_row L data c = Inr row"
  shows "\<exists>frs. filter_loop L data conds acc = Inr frs"
  using assms by (induction conds arbitrary: acc) (auto simp: filter_entry_def)

text \<open>A Filter node returns a record unless a condition raises: one that is not a dict, or
  one whose field is a list or a dict.\<close>

lemma FilterNode_execute_returns:
  assumes "py_iter (dict_get_default cfg ''conditions'' (PList [])) = Inr conds"
    and "\<forall>c\<in>set conds. \<exists>row. condition_row L data c = Inr row"
  shows "\<exists>result. FilterNode_execute L cfg data = Inr result"
proof -
  from filter_loop_returns [OF assms(2)] obtain frs where "filter_loop L data conds [] = Inr frs"
    by blast
  with assms(1) show ?thesis
    by (simp add: FilterNode_execute_def Let_def)
qed

text \<open>
  C1. Whenever a Filter node returns a record: the conditions were all evaluated, each to
  a row with its match result, \<^verbatim>\<open>filter_results\<close> holds the rows in order, and
  \<^verbatim>\<open>filter_passed\<close> is true under the logic mode \<^verbatim>\<open>AND\<close> (the default) iff every match
  result is true, and under \<^verbatim>\<open>OR\<close> (any mode other than \<^verbatim>\<open>AND\<close>) iff at least one is
  true. With no condition, \<^verbatim>\<open>filter_passed\<close> is true under \<^verbatim>\<open>AND\<close> and false under \<^verbatim>\<open>OR\<close>.
\<close>

theorem FilterNode_execute_filter_passed:
  assumes "FilterNode_execute L cfg data = Inr result"
  shows "\<exists>conds rows.
      py_iter (dict_get_default cfg ''conditions'' (PList [])) = Inr conds
    \<and> map (condition_row L data) conds = map Inr rows
    \<and> dict_get result ''filter_results'' = PList (map row_dict rows)
    \<and> (dict_get_default cfg ''logic'' (PStr ''AND'') = PStr ''AND'' \<longrightarrow>
         dict_get result ''filter_passed'' = PBool (\<forall>r\<in>set rows. match_result r))
    \<and> (dict_get_default cfg ''logic'' (PStr ''AND'') \<noteq> PStr ''AND'' \<longrightarrow>
         dict_get result ''filter_passed'' = PBool (\<exists>r\<in>set rows. match_result r))
    \<and> (conds = [] \<and> dict_get_default cfg ''logic'' (PStr ''AND'') = PStr ''AND'' \<longrightarrow>
         dict_get result ''filter_passed'' = PBool True)
    \<and> (conds = [] \<and> dict_get_default cfg ''logic'' (PStr ''AND'') \<noteq> PStr ''AND'' \<longrightarrow>
         dict_get result ''filter_passed'' = PBool False)"
proof -
  from assms obtain conds frs where
    conds: "py_iter (dict_get_default cfg ''conditions'' (PList [])) = Inr conds"
    and loop: "filter_loop L data conds [] = Inr frs"
    by (auto simp: FilterNode_execute_def split: sum.splits)
  from filter_loop_rows [OF loop] obtain rows where
    rows: "map (condition_row L data) conds = map Inr rows" and frs: "frs = map row_dict rows"
    by auto
  have all: "list_all entry_result frs = (\<forall>r\<in>set rows. match_result r)"
    by (simp add: frs list_all_iff entry_result_row_dict)
  have ex: "list_ex entry_result frs = (\<exists>r\<in>set rows. match_result r)"
    by (simp add: frs list_ex_iff entry_result_row_dict)
  have empty: "conds = [] \<Longrightarrow> rows = []"
    using rows by simp
  show ?thesis
  proof (cases "dict_get_default cfg ''logic'' (PStr ''AND'') = PStr ''AND''")
    case True
    with assms conds loop have "result =
        AList.update ''filter_passed'' (PBool (list_all entry_result frs))
          (AList.update ''filter_results'' (PList frs)
            (AList.update ''filter_results'' (PList []) data))"
      by (simp add: FilterNode_execute_def)
    with True conds rows frs all empty show ?thesis
      by (auto simp: dict_get_update)
  next
    case False
    with assms conds loop have "result =
        AList.update ''filter_passed'' (PBool (list_ex entry_result frs))
          (AList.update ''filter_results'' (PList frs)
            (AList.update ''filter_results'' (PList []) data))"
      by (simp add: FilterNode_execute_def)
    with False conds rows frs ex empty show ?thesis
      by (auto simp: dict_get_update)
  qed
qed

theorem FilterNode_execute_filter_passed_witness:
  "\<exists>result. FilterNode_execute example_lib example_filter_config hello_record = Inr result
     \<and> dict_get result ''filter_passed'' = PBool False"
proof -
  obtain result where
    r: "FilterNode_execute example_lib example_filter_config hello_record = Inr result"
    by (simp add: filter_simps example_lib_simps example_filter_config_def hello_record_def)
  have c1: "condition_row example_lib hello_record
      (PDict [(''field'', PStr ''subject''), (''operator'', PStr ''contains''),
              (''value'', PStr ''HELLO'')])
      = Inr (PStr ''subject'', PStr ''contains'', PStr ''HELLO'', True)"
    by (simp add: filter_simps example_lib_simps hello_record_def)
  have c2: "condition_row example_lib hello_record
      (PDict [(''field'', PStr ''size''), (''operator'', PStr ''greater_than''),
              (''value'', PStr ''1000'')])
      = Inr (PStr ''size'', PStr ''greater_than'', PStr ''1000'', False)"
    by (simp add: filter_simps example_lib_simps hello_record_def)
  from FilterNode_execute_filter_passed [OF r] c1 c2
  have "dict_get result ''filter_passed'' = PBool False"
    by (auto simp: example_filter_config_def dict_get_default_def)
  with r show ?thesis by blast
qed

section \<open>Action nodes\<close>

text \<open>
  C9. An Action node whose \<^verbatim>\<open>action_type\<close> is none of \<^verbatim>\<open>reject\<close>, \<^verbatim>\<open>quarantine\<close>,
  \<^verbatim>\<open>forward\<close>, \<^verbatim>\<open>modify_headers\<close>, \<^verbatim>\<open>accept\<close>, \<^verbatim>\<open>tag\<close> returns its input record: it sets
  no \<^verbatim>\<open>action\<close> key, and the traversal goes on to the connections of the node with the
  record it came with.
\<close>

theorem ActionNode_execute_unrecognized:
  assumes "node_class n = ActionNode"
    and "dict_get (config n) ''action_type'' \<notin>
      {PStr ''reject'', PStr ''quarantine'', PStr ''forward'', PStr ''modify_headers'',
       PStr ''accept'', PStr ''tag''}"
  shows "ActionNode_execute (config n) data = data
    \<and> node_execute L n data = Inr data
    \<and> map_of (ActionNode_execute (config n) data) ''action'' = map_of data ''action''
    \<and> (node_id n \<notin> visited \<longrightarrow>
         execute_node L E n data visited =
           (case follow_connections L E (connections n) data (insert (node_id n) visited) of
              Inl e \<Rightarrow> Inl e
            | Inr (result, trace) \<Rightarrow>
                Inr (result, insert (node_id n) visited, node_id n # trace)))"
proof -
  from assms(2) have same: "ActionNode_execute (config n) data = data"
    by (simp add: ActionNode_execute_def)
  with assms(1) have exec: "node_execute L n data = Inr data"
    by (simp add: node_execute_def)
  have "node_id n \<notin> visited \<Longrightarrow>
      execute_node L E n data visited =
        (case follow_connections L E (connections n) data (insert (node_id n) visited) of
           Inl e \<Rightarrow> Inl e
         | Inr (result, trace) \<Rightarrow>
             Inr (result, insert (node_id n) visited, node_id n # trace))"
    by (subst execute_node.simps) (simp add: exec)
  with same exec show ?thesis by simp
qed

theorem ActionNode_execute_unrecognized_witness:
  "node_class (new_node ActionNode ''a1'' [(''action_type'', PStr ''archive'')]) = ActionNode
 \<and> ActionNode_execute [(''action_type'', PStr ''archive'')] hello_record = hello_record
 \<and> map_of hello_record ''action'' = None
 \<and> execute_node example_lib \<lparr>nodes = []\<rparr>
      (new_node ActionNode ''a1'' [(''action_type'', PStr ''archive'')]) hello_record {}
    = Inr (hello_record, {''a1''}, [''a1''])"
  using ActionNode_execute_unrecognized
          [of "new_node ActionNode ''a1'' [(''action_type'', PStr ''archive'')]"
              hello_record example_lib "{}" "\<lparr>nodes = []\<rparr>"]
  by (simp add: new_node_def dict_get_def dict_get_default_def hello_record_def)

section \<open>Running a workflow\<close>

text \<open>
  C4. On a graph that has no node of type \<^verbatim>\<open>trigger\<close>, running the workflow on any
  record returns the record \<^verbatim>\<open>{'action': 'accept', 'error': 'No trigger node'}\<close>, and no
  node is executed: the list of executed nodes is empty.
\<close>

theorem WorkflowEngine_execute_no_trigger:
  assumes "\<forall>n\<in>set (map snd (nodes E)). node_type n \<noteq> ''trigger''"
  shows "WorkflowEngine_execute L E email_data =
    Inr ([(''action'', PStr ''accept''), (''error'', PStr ''No trigger node'')], [])"
proof -
  from assms have "find (\<lambda>n. node_type n = ''trigger'') (map snd (nodes E)) = None"
    by (simp add: find_None_iff)
  then show ?thesis by (simp add: WorkflowEngine_execute_def)
qed

theorem WorkflowEngine_execute_no_trigger_witness:
  "WorkflowEngine_execute example_lib (build_workflow no_trigger_config) spam_record =
    Inr ([(''action'', PStr ''accept''), (''error'', PStr ''No trigger node'')], [])"
proof -
  have "\<forall>n\<in>set (map snd (nodes (build_workflow no_trigger_config))).
          node_type n \<noteq> ''trigger''"
    by (simp add: build_simps no_trigger_config_def)
  then show ?thesis by (rule WorkflowEngine_execute_no_trigger)
qed

text \<open>
  C2. On every graph, with or without a cycle, the traversal terminates: every call of
  \<^verbatim>\<open>_execute_node\<close> and every run of its loop is in the domain of the recursion. A call on
  a node whose id is already in the visited set returns the record unchanged, and executes
  nothing.
\<close>

theorem execute_node_terminates:
  "execute_node_follow_connections_dom (Inl (L, E, n, data, visited))
 \<and> execute_node_follow_connections_dom (Inr (L, E, cs, data, visited))
 \<and> (node_id n \<in> visited \<longrightarrow> execute_node L E n data visited = Inr (data, visited, []))"
  using traversal_total [THEN spec, of "Inl (L, E, n, data, visited)"]
    traversal_total [THEN spec, of "Inr (L, E, cs, data, visited)"]
  by (simp add: execute_node.simps)

theorem execute_node_terminates_witness:
  "execute_node_follow_connections_dom
     (Inl (example_lib, build_workflow cyclic_config,
           new_node ActionNode ''a1'' (action_descriptor ''a1'' ''quarantine''),
           hello_record, {''t1'', ''a1'', ''a2''}))
 \<and> execute_node example_lib (build_workflow cyclic_config)
       (new_node ActionNode ''a1'' (action_descriptor ''a1'' ''quarantine''))
       hello_record {''t1'', ''a1'', ''a2''}
     = Inr (hello_record, {''t1'', ''a1'', ''a2''}, [])
 \<and> (\<exists>result. WorkflowEngine_execute example_lib (build_workflow cyclic_config) hello_record
        = Inr (result, [''t1'', ''a1'', ''a2'']))"
proof -
  have run: "\<exists>result. WorkflowEngine_execute example_lib (build_workflow cyclic_config) hello_record
        = Inr (result, [''t1'', ''a1'', ''a2''])"
    by (simp add: traversal_simps build_simps cyclic_config_def)
  from run execute_node_terminates
    [of example_lib "build_workflow cyclic_config"
        "new_node ActionNode ''a1'' (action_descriptor ''a1'' ''quarantine'')"
        hello_record "{''t1'', ''a1'', ''a2''}" "[]"]
  show ?thesis by (simp add: new_node_def)
qed

lemma follow_connections_append:
  "follow_connections L E (cs1 @ cs2) result visited =
    (case follow_connections L E cs1 result visited of
       Inl e \<Rightarrow> Inl e
     | Inr (result1, trace1) \<Rightarrow>
         (case follow_connections L E cs2 result1 visited of
            Inl e \<Rightarrow> Inl e
          | Inr (result2, trace2) \<Rightarrow> Inr (result2, trace1 @ trace2)))"
proof (induction cs1 arbitrary: result)
  case Nil
  show ?case by (simp split: sum.splits)
next
  case (Cons c cs1)
  show ?case
    by (simp add: Cons.IH split: sum.splits option.splits prod.splits)
qed

lemma execute_node_visited:
  assumes "execute_node L E n data visited = Inr (result, visited', trace)"
  shows "visited' = insert (node_id n) visited"
  using assms
  by (subst (asm) execute_node.simps) (auto split: if_splits sum.splits prod.splits)

lemma execute_node_unvisited:
  assumes "node_id n \<notin> visited" and "node_execute L n data = Inr result"
  shows "execute_node L E n data visited =
      (case follow_connections L E (connections n) result (insert (node_id n) visited) of
         Inl e \<Rightarrow> Inl e
       | Inr (result', trace) \<Rightarrow> Inr (result', insert (node_id n) visited, node_id n # trace))"
  using assms by (subst execute_node.simps) simp

lemma execute_node_raises:
  assumes "node_id n \<notin> visited" and "node_execute L n data = Inl e"
  shows "execute_node L E n data visited = Inl e"
  using assms by (subst execute_node.simps) simp

lemma execute_node_leaf:
  assumes "node_id n \<notin> visited" and "node_execute L n data = Inr result"
    and "connections n = []"
  shows "execute_node L E n data visited = Inr (result, insert (node_id n) visited, [node_id n])"
  using assms by (simp add: execute_node_unvisited)

text \<open>
  C8. A followed connection whose target is a node of the graph, not yet visited on this
  branch, executes the target on the record produced so far; the target's own loop starts
  from the record that the target's \<^verbatim>\<open>execute\<close> returned and from a copy of the visited
  set with the target's id added. What the descent adds to its set stays in the copy: the
  next connections of the loop start from the set of the node itself and from the record
  that the descent returned. The connections are followed in their order: the loop over a
  list is the loop over its first part, then the loop over the rest on the record so far.
  So a target is executed once for each connection that reaches it: two connections to the
  same leaf execute it twice, the second time on the output of the first, as the two
  branches of a diamond execute their shared descendant twice. An exception of the target
  ends the loop, and a target already in the visited set is skipped.
\<close>

theorem follow_connections_threads_record:
  assumes "should_follow_connection result (condition c)"
    and "map_of (nodes E) (target c) = Some target_node"
  shows "follow_connections L E (c # cs) result visited =
      (case execute_node L E target_node result visited of
         Inl e \<Rightarrow> Inl e
       | Inr (result', visited_copy, trace) \<Rightarrow>
           (case follow_connections L E cs result' visited of
              Inl e \<Rightarrow> Inl e
            | Inr (result'', trace') \<Rightarrow> Inr (result'', trace @ trace')))
    \<and> (\<forall>result' visited_copy trace.
          execute_node L E target_node result visited = Inr (result', visited_copy, trace) \<longrightarrow>
          visited_copy = insert (node_id target_node) visited)
    \<and> follow_connections L E (cs1 @ cs2) result visited =
        (case follow_connections L E cs1 result visited of
           Inl e \<Rightarrow> Inl e
         | Inr (result1, trace1) \<Rightarrow>
             (case follow_connections L E cs2 result1 visited of
                Inl e \<Rightarrow> Inl e
              | Inr (result2, trace2) \<Rightarrow> Inr (result2, trace1 @ trace2)))
    \<and> (\<forall>executed.
          node_id target_node \<notin> visited \<and> node_execute L target_node result = Inr executed \<longrightarrow>
          follow_connections L E (c # cs) result visited =
            (case follow_connections L E (connections target_node) executed
                    (insert (node_id target_node) visited) of
               Inl e \<Rightarrow> Inl e
             | Inr (result', trace) \<Rightarrow>
                 (case follow_connections L E cs result' visited of
                    Inl e \<Rightarrow> Inl e
                  | Inr (result'', trace') \<Rightarrow>
                      Inr (result'', node_id target_node # trace @ trace'))))
    \<and> (\<forall>executed.
          node_id target_node \<notin> visited \<and> node_execute L target_node result = Inr executed
          \<and> connections target_node = [] \<longrightarrow>
          follow_connections L E (c # c # cs) result visited =
            (if should_follow_connection executed (condition c) then
               (case node_execute L target_node executed of
                  Inl e \<Rightarrow> Inl e
                | Inr executed' \<Rightarrow>
                    (case follow_connections L E cs executed' visited of
                       Inl e \<Rightarrow> Inl e
                     | Inr (result'', trace') \<Rightarrow>
                         Inr (result'', node_id target_node # node_id target_node # trace')))
             else
               (case follow_connections L E cs executed visited of
                  Inl e \<Rightarrow> Inl e
                | Inr (result'', trace') \<Rightarrow> Inr (result'', node_id target_node # trace'))))
    \<and> (\<forall>data executed.
          node_id target_node \<notin> visited \<and> node_execute L target_node data = Inr executed \<longrightarrow>
          execute_node L E target_node data visited =
            (case follow_connections L E (connections target_node) executed
                    (insert (node_id target_node) visited) of
               Inl e \<Rightarrow> Inl e
             | Inr (result', trace) \<Rightarrow>
                 Inr (result', insert (node_id target_node) visited, node_id target_node # trace)))
    \<and> (\<forall>e. node_id target_node \<notin> visited \<and> node_execute L target_node result = Inl e \<longrightarrow>
          follow_connections L E (c # cs) result visited = Inl e)
    \<and> (node_id target_node \<in> visited \<longrightarrow>
          follow_connections L E (c # cs) result visited = follow_connections L E cs result visited)"
proof (intro conjI allI impI)
  show "follow_connections L E (c # cs) result visited =
      (case execute_node L E target_node result visited of
         Inl e \<Rightarrow> Inl e
       | Inr (result', visited_copy, trace) \<Rightarrow>
           (case follow_connections L E cs result' visited of
              Inl e \<Rightarrow> Inl e
            | Inr (result'', trace') \<Rightarrow> Inr (result'', trace @ trace')))"
    using assms by simp
next
  fix result' visited_copy trace
  assume "execute_node L E target_node result visited = Inr (result', visited_copy, trace)"
  then show "visited_copy = insert (node_id target_node) visited"
    by (rule execute_node_visited)
next
  show "follow_connections L E (cs1 @ cs2) result visited =
        (case follow_connections L E cs1 result visited of
           Inl e \<Rightarrow> Inl e
         | Inr (result1, trace1) \<Rightarrow>
             (case follow_connections L E cs2 result1 visited of
                Inl e \<Rightarrow> Inl e
              | Inr (result2, trace2) \<Rightarrow> Inr (result2, trace1 @ trace2)))"
    by (rule follow_connections_append)
next
  fix executed
  assume "node_id target_node \<notin> visited \<and> node_execute L target_node result = Inr executed"
  then show "follow_connections L E (c # cs) result visited =
            (case follow_connections L E (connections target_node) executed
                    (insert (node_id target_node) visited) of
               Inl e \<Rightarrow> Inl e
             | Inr (result', trace) \<Rightarrow>
                 (case follow_connections L E cs result' visited of
                    Inl e \<Rightarrow> Inl e
                  | Inr (result'', trace') \<Rightarrow>
                      Inr (result'', node_id target_node # trace @ trace')))"
    using assms by (simp add: execute_node_unvisited split: sum.splits prod.splits)
next
  fix executed
  assume a: "node_id target_node \<notin> visited \<and> node_execute L target_node result = Inr executed
          \<and> connections target_node = []"
  then have first: "execute_node L E target_node result visited
      = Inr (executed, insert (node_id target_node) visited, [node_id target_node])"
    by (simp add: execute_node_leaf)
  have second: "\<And>executed'. node_execute L target_node executed = Inr executed' \<Longrightarrow>
      execute_node L E target_node executed visited
      = Inr (executed', insert (node_id target_node) visited, [node_id target_node])"
    using a by (simp add: execute_node_leaf)
  have third: "\<And>e. node_execute L target_node executed = Inl e \<Longrightarrow>
      execute_node L E target_node executed visited = Inl e"
    using a by (simp add: execute_node_raises)
  show "follow_connections L E (c # c # cs) result visited =
            (if should_follow_connection executed (condition c) then
               (case node_execute L target_node executed of
                  Inl e \<Rightarrow> Inl e
                | Inr executed' \<Rightarrow>
                    (case follow_connections L E cs executed' visited of
                       Inl e \<Rightarrow> Inl e
                     | Inr (result'', trace') \<Rightarrow>
                         Inr (result'', node_id target_node # node_id target_node # trace')))
             else
               (case follow_connections L E cs executed visited of
                  Inl e \<Rightarrow> Inl e
                | Inr (result'', trace') \<Rightarrow> Inr (result'', node_id target_node # trace')))"
  proof (cases "node_execute L target_node executed")
    case (Inl e)
    with assms first third [OF Inl] show ?thesis
      by (simp split: sum.splits prod.splits)
  next
    case (Inr executed')
    with assms first second [OF Inr] show ?thesis
      by (simp split: sum.splits prod.splits)
  qed
next
  fix data executed
  assume "node_id target_node \<notin> visited \<and> node_execute L target_node data = Inr executed"
  then show "execute_node L E target_node data visited =
            (case follow_connections L E (connections target_node) executed
                    (insert (node_id target_node) visited) of
               Inl e \<Rightarrow> Inl e
             | Inr (result', trace) \<Rightarrow>
                 Inr (result', insert (node_id target_node) visited, node_id target_node # trace))"
    by (simp add: execute_node_unvisited)
next
  fix e
  assume "node_id target_node \<notin> visited \<and> node_execute L target_node result = Inl e"
  then show "follow_connections L E (c # cs) result visited = Inl e"
    using assms by (simp add: execute_node_raises)
next
  assume "node_id target_node \<in> visited"
  then have "execute_node L E target_node result visited = Inr (result, visited, [])"
    by (simp add: execute_node.simps)
  then show "follow_connections L E (c # cs) result visited = follow_connections L E cs result visited"
    using assms by (simp split: sum.splits prod.splits)
qed

theorem follow_connections_threads_record_witness:
  "should_follow_connection hello_record PNone
 \<and> map_of (nodes (build_workflow diamond_config)) ''a1''
     = Some \<lparr>node_id = ''a1'', node_class = ActionNode,
             config = action_descriptor ''a1'' ''quarantine'',
             connections = [\<lparr>target = ''d1'', condition = PNone\<rparr>]\<rparr>
 \<and> execute_node example_lib (build_workflow diamond_config)
       \<lparr>node_id = ''a1'', node_class = ActionNode,
         config = action_descriptor ''a1'' ''quarantine'',
         connections = [\<lparr>target = ''d1'', condition = PNone\<rparr>]\<rparr>
       hello_record {''t1''}
     = Inr (hello_record @
              [(''action'', PStr ''accept''),
               (''quarantine_folder'', PStr ''/var/mail/quarantine'')],
            {''a1'', ''t1''}, [''a1'', ''d1''])
 \<and> follow_connections example_lib (build_workflow diamond_config)
       [\<lparr>target = ''a1'', condition = PNone\<rparr>, \<lparr>target = ''a2'', condition = PNone\<rparr>]
       hello_record {''t1''}
     = Inr (hello_record @
              [(''action'', PStr ''accept''),
               (''quarantine_folder'', PStr ''/var/mail/quarantine''),
               (''reject_reason'', PStr ''Message rejected by filter'')],
            [''a1'', ''d1'', ''a2'', ''d1''])
 \<and> WorkflowEngine_execute example_lib (build_workflow diamond_config) hello_record
     = Inr (hello_record @
              [(''action'', PStr ''accept''),
               (''quarantine_folder'', PStr ''/var/mail/quarantine''),
               (''reject_reason'', PStr ''Message rejected by filter'')],
            [''t1'', ''a1'', ''d1'', ''a2'', ''d1''])"
proof -
  let ?a1 = "\<lparr>node_id = ''a1'', node_class = ActionNode,
             config = action_descriptor ''a1'' ''quarantine'',
             connections = [\<lparr>target = ''d1'', condition = PNone\<rparr>]\<rparr>"
  let ?c = "\<lparr>target = ''a1'', condition = PNone\<rparr>"
  have follow: "should_follow_connection hello_record (condition ?c)"
    by (simp add: should_follow_connection_def)
  have a1: "map_of (nodes (build_workflow diamond_config)) (target ?c) = Some ?a1"
    by (simp add: build_simps diamond_config_def)
  have node: "execute_node example_lib (build_workflow diamond_config) ?a1 hello_record {''t1''}
     = Inr (hello_record @
              [(''action'', PStr ''accept''),
               (''quarantine_folder'', PStr ''/var/mail/quarantine'')],
            {''a1'', ''t1''}, [''a1'', ''d1''])"
    by (simp add: traversal_simps build_simps diamond_config_def hello_record_def)
  have rest: "follow_connections example_lib (build_workflow diamond_config)
       [\<lparr>target = ''a2'', condition = PNone\<rparr>]
       (hello_record @
              [(''action'', PStr ''accept''),
               (''quarantine_folder'', PStr ''/var/mail/quarantine'')]) {''t1''}
     = Inr (hello_record @
              [(''action'', PStr ''accept''),
               (''quarantine_folder'', PStr ''/var/mail/quarantine''),
               (''reject_reason'', PStr ''Message rejected by filter'')],
            [''a2'', ''d1''])"
    by (simp add: traversal_simps build_simps diamond_config_def hello_record_def)
  have run: "WorkflowEngine_execute example_lib (build_workflow diamond_config) hello_record
     = Inr (hello_record @
              [(''action'', PStr ''accept''),
               (''quarantine_folder'', PStr ''/var/mail/quarantine''),
               (''reject_reason'', PStr ''Message rejected by filter'')],
            [''t1'', ''a1'', ''d1'', ''a2'', ''d1''])"
    by (simp add: traversal_simps build_simps diamond_config_def hello_record_def)
  from follow_connections_threads_record
         [OF follow a1, THEN conjunct1,
          of example_lib "[\<lparr>target = ''a2'', condition = PNone\<rparr>]" "{''t1''}"]
  have "follow_connections example_lib (build_workflow diamond_config)
       [?c, \<lparr>target = ''a2'', condition = PNone\<rparr>] hello_record {''t1''}
     = Inr (hello_record @
              [(''action'', PStr ''accept''),
               (''quarantine_folder'', PStr ''/var/mail/quarantine''),
               (''reject_reason'', PStr ''Message rejected by filter'')],
            [''a1'', ''d1'', ''a2'', ''d1''])"
    by (simp add: node rest del: follow_connections.simps)
  with follow a1 node run show ?thesis by simp
qed

lemma default_engine:
  "build_workflow default_config = E \<Longrightarrow> nodes E =
    [(''trigger1'', \<lparr>node_id = ''trigger1'', node_class = TriggerNode,
        config = [(''id'', PStr ''trigger1''), (''type'', PStr ''trigger''),
                  (''name'', PStr ''Email Received'')],
        connections = [\<lparr>target = ''filter1'', condition = PNone\<rparr>]\<rparr>),
     (''filter1'', \<lparr>node_id = ''filter1'', node_class = FilterNode,
        config = [(''id'', PStr ''filter1''), (''type'', PStr ''filter''),
             (''name'', PStr ''Spam Filter''), (''logic'', PStr ''OR''),
             (''conditions'', PList
                [PDict [(''field'', PStr ''subject''), (''operator'', PStr ''contains''),
                        (''value'', PStr ''[SPAM]'')],
                 PDict [(''field'', PStr ''sender''), (''operator'', PStr ''contains''),
                        (''value'', PStr ''noreply@spam'')]])],
        connections = [\<lparr>target = ''action1'', condition = PStr ''true''\<rparr>,
                       \<lparr>target = ''action2'', condition = PStr ''false''\<rparr>]\<rparr>),
     (''action1'', \<lparr>node_id = ''action1'', node_class = ActionNode,
        config = [(''id'', PStr ''action1''), (''type'', PStr ''action''),
             (''name'', PStr ''Reject Spam''), (''action_type'', PStr ''reject''),
             (''reason'', PStr ''Message identified as spam'')],
        connections = []\<rparr>),
     (''action2'', \<lparr>node_id = ''action2'', node_class = ActionNode,
        config = [(''id'', PStr ''action2''), (''type'', PStr ''action''),
             (''name'', PStr ''Accept Email''), (''action_type'', PStr ''accept'')],
        connections = []\<rparr>)]"
  by (auto simp: build_simps default_config_def)

lemma ascii_lower_examples:
  assumes "\<And>s. is_ascii s \<Longrightarrow> py_lower L s = ascii_lower s"
  shows "py_lower L ''[SPAM]'' = ''[spam]''"
    and "py_lower L ''[SPAM] buy now'' = ''[spam] buy now''"
    and "py_lower L ''noreply@spam'' = ''noreply@spam''"
    and "py_lower L ''hello'' = ''hello''"
    and "py_lower L ''a@b.com'' = ''a@b.com''"
  by (simp_all add: assms is_ascii_def ascii_lower_def ascii_lower_char_def)

text \<open>
  C7. The graph built from the default configuration rejects a record whose subject is
  \<^verbatim>\<open>[SPAM] buy now\<close>, and accepts a record whose subject is \<^verbatim>\<open>hello\<close> and whose sender is
  \<^verbatim>\<open>a@b.com\<close>, whatever the other fields of the record are: the trigger, the filter and
  the reject action run in the first case, the trigger, the filter and the accept action in
  the second. The library is any one in which
  \<^verbatim>\<open>str\<close> of a string is the string and \<^verbatim>\<open>lower\<close> of an ASCII string is its ASCII
  lower case, as in CPython.
\<close>

theorem default_workflow_verdicts:
  assumes str: "\<And>s. py_str L (PStr s) = s"
    and lower: "\<And>s. is_ascii s \<Longrightarrow> py_lower L s = ascii_lower s"
  shows "(map_of data ''subject'' = Some (PStr ''[SPAM] buy now'') \<longrightarrow>
          (\<exists>result trace.
             WorkflowEngine_execute L (build_workflow default_config) data = Inr (result, trace)
             \<and> dict_get result ''action'' = PStr ''reject''
       \<and> trace = [''trigger1'', ''filter1'', ''action1'']))
       \<and> (map_of data ''subject'' = Some (PStr ''hello'')
            \<and> map_of data ''from'' = Some (PStr ''a@b.com'') \<longrightarrow>
          (\<exists>result trace.
             WorkflowEngine_execute L (build_workflow default_config) data = Inr (result, trace)
             \<and> dict_get result ''action'' = PStr ''accept''
       \<and> trace = [''trigger1'', ''filter1'', ''action2'']))"
proof -
  note low = ascii_lower_examples [OF lower]
  obtain E where E: "build_workflow default_config = E" by simp
  note nodes = default_engine [OF E]
  show ?thesis
    unfolding E
  proof (intro conjI impI)
    assume subj: "map_of data ''subject'' = Some (PStr ''[SPAM] buy now'')"
    show "\<exists>result trace. WorkflowEngine_execute L E data = Inr (result, trace)
             \<and> dict_get result ''action'' = PStr ''reject''
       \<and> trace = [''trigger1'', ''filter1'', ''action1'']"
      by (simp add: traversal_simps filter_simps nodes node_type_def subj str low
          update_conv' sublist_code(3))
  next
    assume "map_of data ''subject'' = Some (PStr ''hello'')
            \<and> map_of data ''from'' = Some (PStr ''a@b.com'')"
    then have subj: "map_of data ''subject'' = Some (PStr ''hello'')"
      and sender: "map_of data ''from'' = Some (PStr ''a@b.com'')"
      by simp_all
    show "\<exists>result trace. WorkflowEngine_execute L E data = Inr (result, trace)
             \<and> dict_get result ''action'' = PStr ''accept''
       \<and> trace = [''trigger1'', ''filter1'', ''action2'']"
      by (simp add: traversal_simps filter_simps nodes node_type_def subj sender str low
          update_conv' sublist_code(3))
  qed
qed

theorem default_workflow_verdicts_witness:
  "map_of spam_record ''subject'' = Some (PStr ''[SPAM] buy now'')
 \<and> (\<exists>result trace.
       WorkflowEngine_execute example_lib (build_workflow default_config) spam_record
         = Inr (result, trace)
       \<and> dict_get result ''action'' = PStr ''reject''
       \<and> trace = [''trigger1'', ''filter1'', ''action1''])
 \<and> map_of hello_record ''subject'' = Some (PStr ''hello'')
 \<and> map_of hello_record ''from'' = Some (PStr ''a@b.com'')
 \<and> (\<exists>result trace.
       WorkflowEngine_execute example_lib (build_workflow default_config) hello_record
         = Inr (result, trace)
       \<and> dict_get result ''action'' = PStr ''accept''
       \<and> trace = [''trigger1'', ''filter1'', ''action2''])"
proof -
  have str: "\<And>s. py_str example_lib (PStr s) = s"
    by (simp add: example_lib_def)
  have lower: "\<And>s. is_ascii s \<Longrightarrow> py_lower example_lib s = ascii_lower s"
    by (simp add: example_lib_def)
  have spam: "map_of spam_record ''subject'' = Some (PStr ''[SPAM] buy now'')"
    by (simp add: spam_record_def)
  have hello: "map_of hello_record ''subject'' = Some (PStr ''hello'')
      \<and> map_of hello_record ''from'' = Some (PStr ''a@b.com'')"
    by (simp add: hello_record_def)
  from default_workflow_verdicts [of example_lib spam_record, OF str lower] spam
  have 1: "\<exists>result trace.
       WorkflowEngine_execute example_lib (build_workflow default_config) spam_record
         = Inr (result, trace)
       \<and> dict_get result ''action'' = PStr ''reject''
       \<and> trace = [''trigger1'', ''filter1'', ''action1'']"
    by blast
  from default_workflow_verdicts [of example_lib hello_record, OF str lower] hello
  have 2: "\<exists>result trace.
       WorkflowEngine_execute example_lib (build_workflow default_config) hello_record
         = Inr (result, trace)
       \<and> dict_get result ''action'' = PStr ''accept''
       \<and> trace = [''trigger1'', ''filter1'', ''action2'']"
    by blast
  from spam hello 1 2 show ?thesis by blast
qed

section \<open>Following connections\<close>

text \<open>
  C3. An absent label (\<^verbatim>\<open>None\<close>) and every other falsy label, such as the empty string,
  is followed whatever the record holds; the label \<^verbatim>\<open>"true"\<close> is followed iff
  \<^verbatim>\<open>filter_passed\<close> is truthy on the record, the label \<^verbatim>\<open>"false"\<close> iff it is falsy, so
  exactly one of the two is followed; every other truthy label is never followed.
\<close>

theorem should_follow_connection_label:
  "(\<not> truthy cond \<longrightarrow> should_follow_connection data cond)
 \<and> should_follow_connection data PNone
 \<and> (should_follow_connection data (PStr ''true'') \<longleftrightarrow> truthy (dict_get data ''filter_passed''))
 \<and> (should_follow_connection data (PStr ''false'') \<longleftrightarrow> \<not> truthy (dict_get data ''filter_passed''))
 \<and> (truthy cond \<and> cond \<noteq> PStr ''true'' \<and> cond \<noteq> PStr ''false'' \<longrightarrow>
       \<not> should_follow_connection data cond)
 \<and> (should_follow_connection data (PStr ''true'') \<noteq> should_follow_connection data (PStr ''false''))"
  by (simp add: should_follow_connection_def)

theorem should_follow_connection_label_witness:
  "truthy (PStr ''maybe'')
 \<and> \<not> should_follow_connection [(''filter_passed'', PBool True)] (PStr ''maybe'')
 \<and> should_follow_connection [(''filter_passed'', PBool True)] (PStr ''true'')
 \<and> \<not> should_follow_connection [(''filter_passed'', PBool True)] (PStr ''false'')
 \<and> \<not> truthy (PList [])
 \<and> should_follow_connection [(''filter_passed'', PBool True)] (PList [])"
  using should_follow_connection_label [of "PStr ''maybe''" "[(''filter_passed'', PBool True)]"]
        should_follow_connection_label [of "PList []" "[(''filter_passed'', PBool True)]"]
  by (simp add: dict_get_def dict_get_default_def)

text \<open>
  The empty string is a label other than \<^verbatim>\<open>"true"\<close> and \<^verbatim>\<open>"false"\<close>, and it is not
  absent; a connection that carries it is followed, whether \<^verbatim>\<open>filter_passed\<close> is true or
  false.
\<close>

theorem should_follow_connection_empty_label:
  "PStr '''' \<noteq> PNone \<and> PStr '''' \<noteq> PStr ''true'' \<and> PStr '''' \<noteq> PStr ''false''
 \<and> should_follow_connection [(''filter_passed'', PBool True)] (PStr '''')
 \<and> should_follow_connection [(''filter_passed'', PBool False)] (PStr '''')"
  by (simp add: should_follow_connection_def)

text \<open>
  C10. On a record that has no \<^verbatim>\<open>filter_passed\<close> key (one that never went through a
  Filter node), a connection labelled \<^verbatim>\<open>"false"\<close> is followed and a connection labelled
  \<^verbatim>\<open>"true"\<close> is not: \<^verbatim>\<open>data.get('filter_passed')\<close> is \<^verbatim>\<open>None\<close>, which is falsy.
\<close>

theorem should_follow_connection_absent:
  assumes "map_of data ''filter_passed'' = None"
  shows "should_follow_connection data (PStr ''false'')
       \<and> \<not> should_follow_connection data (PStr ''true'')"
  using assms by (simp add: should_follow_connection_def dict_get_def dict_get_default_def)

theorem should_follow_connection_absent_witness:
  "map_of [(''subject'', PStr ''hello'')] ''filter_passed'' = None
   \<and> should_follow_connection [(''subject'', PStr ''hello'')] (PStr ''false'')
   \<and> \<not> should_follow_connection [(''subject'', PStr ''hello'')] (PStr ''true'')"
  using should_follow_connection_absent [of "[(''subject'', PStr ''hello'')]"] by simp

section \<open>Processing an email\<close>






end
